theory Spec2Isabelle
  imports Main "HOL-Library.Sublist"
begin

section \<open>Values, errors and the Query cursor\<close>

text \<open>
  Modelled from the spec: the type \<^verbatim>\<open>Value\<close> (\<^verbatim>\<open>model.Value\<close> in client.go,
  \<^verbatim>\<open>xmlrpc.Value\<close> in handler.go) is declared in packages that are not part of the two
  files verified here. The spec (section 3) gives it as a tagged union: scalar string,
  scalar number, scalar bool, an opaque scalar (date-time, binary), an ordered list and a
  named map. The struct literal \<^verbatim>\<open>Value{FlatString: s}\<close> of the source is the scalar string
  \<open>VString s\<close>, and \<^verbatim>\<open>Value{Array: &Array{Data: []*Value{}}}\<close> is the empty ordered list
  \<open>VList []\<close>. Numbers are integers here; floating point is not modelled.
\<close>

datatype Value =
    VString string
  | VNumber int
  | VBool bool
  | VOpaque string
  | VList "Value list"
  | VMap "(string \<times> Value) list"

text \<open>
  Modelled from the spec: Go's \<^verbatim>\<open>interface{}\<close> as produced by \<^verbatim>\<open>Query.Any\<close>: a generic dynamically typed value
  (spec 4.1: lists become sequences, maps become mappings, scalars native scalars).
  \<open>ANil\<close> is Go's \<^verbatim>\<open>nil\<close>.
\<close>

datatype any =
    ANil
  | AString string
  | ANumber int
  | ABool bool
  | AOpaque string
  | ASeq "any list"
  | AMap "(string \<times> any) list"

text \<open>
  Go's \<^verbatim>\<open>error\<close> values. The three traversal faults are the ones the spec names for the
  Query (sections 4.1 and 7); \<open>errors_New\<close> and \<open>Errorf\<close> are the calls
  \<^verbatim>\<open>errors.New(msg)\<close> and \<^verbatim>\<open>fmt.Errorf(format, args...)\<close> of the source, kept with their
  format string and their arguments. A nil error is \<open>None\<close> of \<open>error option\<close>.
\<close>

datatype error =
    TypeMismatch
  | IndexOutOfRange
  | KeyNotFound
  | errors_New string
  | Errorf string "fmtarg list"
and fmtarg =
    ArgInt int
  | ArgErr error

text \<open>
  Modelled from the spec: the Query (\<^verbatim>\<open>model.Q\<close>, \<^verbatim>\<open>xmlrpc.Q\<close> and the accessor methods)
  is not in the verified files. Spec section 3: a cursor over a Value plus a sticky error
  slot; an accessor on a faulted Query is a no-op that propagates the error; the first
  fault wins; child Queries share the slot of their parent. The cursor is the type
  \<open>Query\<close>; the shared slot is threaded through every accessor as \<open>error option\<close>.
  \<^verbatim>\<open>q.Err()\<close> reads the slot. An accessor that faults returns Go's zero value
  (\<^verbatim>\<open>""\<close>, \<^verbatim>\<open>0\<close>, \<^verbatim>\<open>false\<close>, \<^verbatim>\<open>nil\<close>) and leaves the cursor where it was: no accessor
  looks at the cursor of a faulted Query.
\<close>

type_synonym Query = Value

type_synonym slot = "error option"

definition Q :: "Value \<Rightarrow> Query \<times> slot" where
  "Q v = (v, None)"

definition Query_Slice :: "Query \<Rightarrow> slot \<Rightarrow> Query list \<times> slot" where
  "Query_Slice q s =
     (if s \<noteq> None then ([], s)
      else case q of
        VList xs \<Rightarrow> (xs, None)
      | _ \<Rightarrow> ([], Some TypeMismatch))"

definition Query_Map :: "Query \<Rightarrow> slot \<Rightarrow> (string \<times> Query) list \<times> slot" where
  "Query_Map q s =
     (if s \<noteq> None then ([], s)
      else case q of
        VMap kvs \<Rightarrow> (kvs, None)
      | _ \<Rightarrow> ([], Some TypeMismatch))"

definition Query_Idx :: "int \<Rightarrow> Query \<Rightarrow> slot \<Rightarrow> Query \<times> slot" where
  "Query_Idx i q s =
     (if s \<noteq> None then (q, s)
      else case q of
        VList xs \<Rightarrow>
          (if 0 \<le> i \<and> i < int (length xs) then (xs ! nat i, None)
           else (q, Some IndexOutOfRange))
      | _ \<Rightarrow> (q, Some IndexOutOfRange))"

definition Query_String :: "Query \<Rightarrow> slot \<Rightarrow> string \<times> slot" where
  "Query_String q s =
     (if s \<noteq> None then ([], s)
      else case q of
        VString x \<Rightarrow> (x, None)
      | _ \<Rightarrow> ([], Some TypeMismatch))"

definition Query_Int :: "Query \<Rightarrow> slot \<Rightarrow> int \<times> slot" where
  "Query_Int q s =
     (if s \<noteq> None then (0, s)
      else case q of
        VNumber n \<Rightarrow> (n, None)
      | _ \<Rightarrow> (0, Some TypeMismatch))"

definition Query_Bool :: "Query \<Rightarrow> slot \<Rightarrow> bool \<times> slot" where
  "Query_Bool q s =
     (if s \<noteq> None then (False, s)
      else case q of
        VBool b \<Rightarrow> (b, None)
      | _ \<Rightarrow> (False, Some TypeMismatch))"

fun any_of :: "Value \<Rightarrow> any" where
  "any_of (VString x) = AString x"
| "any_of (VNumber n) = ANumber n"
| "any_of (VBool b) = ABool b"
| "any_of (VOpaque x) = AOpaque x"
| "any_of (VList xs) = ASeq (map any_of xs)"
| "any_of (VMap kvs) = AMap (map (map_prod id any_of) kvs)"

definition Query_Any :: "Query \<Rightarrow> slot \<Rightarrow> any \<times> slot" where
  "Query_Any q s = (if s \<noteq> None then (ANil, s) else (any_of q, None))"

text \<open>
  Modelled from the spec: the domain records \<^verbatim>\<open>DeviceDescription\<close> and
  \<^verbatim>\<open>ParameterDescription\<close> and their \<^verbatim>\<open>ReadFrom\<close> methods are declared elsewhere in
  the package; they are parameters of the model (spec 4.2: a record populates itself from
  a Query, and mismatches fault the Query). A \<open>reader\<close> gives the freshly allocated record (\<^verbatim>\<open>&DeviceDescription{}\<close>) and
  what \<^verbatim>\<open>ReadFrom\<close> does on a Query whose slot is clean: the populated record and the
  first fault of its accessor chain, if any. On a faulted Query every accessor is a
  no-op, so the record stays as allocated and the slot is unchanged.
\<close>

record 'd reader =
  fresh :: 'd
  populate :: "Value \<Rightarrow> 'd \<times> error option"

definition ReadFrom :: "'d reader \<Rightarrow> Query \<Rightarrow> slot \<Rightarrow> 'd \<times> slot" where
  "ReadFrom rd q s = (if s \<noteq> None then (fresh rd, s) else populate rd q)"

section \<open>The server side: handler.go\<close>

text \<open>
  The \<^verbatim>\<open>Receiver\<close> interface: six callbacks, each returning an error or nil. A
  callback may read and change the receiver's own state \<open>'r\<close>. The debug log lines of
  both files (\<^verbatim>\<open>svrLog.Debugf\<close>, \<^verbatim>\<open>clnLog.Debugf\<close>) do not touch any result and are
  left out.
\<close>

record ('r, 'd) Receiver =
  Event :: "string \<Rightarrow> string \<Rightarrow> string \<Rightarrow> any \<Rightarrow> 'r \<Rightarrow> error option \<times> 'r"
  NewDevices :: "string \<Rightarrow> 'd list \<Rightarrow> 'r \<Rightarrow> error option \<times> 'r"
  DeleteDevices :: "string \<Rightarrow> string list \<Rightarrow> 'r \<Rightarrow> error option \<times> 'r"
  UpdateDevice :: "string \<Rightarrow> string \<Rightarrow> int \<Rightarrow> 'r \<Rightarrow> error option \<times> 'r"
  ReplaceDevice :: "string \<Rightarrow> string \<Rightarrow> string \<Rightarrow> 'r \<Rightarrow> error option \<times> 'r"
  ReaddedDevice :: "string \<Rightarrow> string list \<Rightarrow> 'r \<Rightarrow> error option \<times> 'r"

text \<open>
  What a handler can do to the outside: call the receiver. The state of the server side
  is the receiver's state together with the sequence of callbacks invoked so far.
\<close>

datatype 'd invocation =
    Invoke_Event string string string any
  | Invoke_NewDevices string "'d list"
  | Invoke_DeleteDevices string "string list"
  | Invoke_UpdateDevice string string int
  | Invoke_ReplaceDevice string string string
  | Invoke_ReaddedDevice string "string list"

record ('r, 'd) server =
  rstate :: 'r
  invoked :: "'d invocation list"

definition invoke ::
  "('r \<Rightarrow> error option \<times> 'r) \<Rightarrow> 'd invocation \<Rightarrow> ('r, 'd) server \<Rightarrow> error option \<times> ('r, 'd) server" where
  "invoke callback c w =
     (case callback (rstate w) of
        (err, r') \<Rightarrow> (err, \<lparr>rstate = r', invoked = invoked w @ [c]\<rparr>))"

type_synonym ('r, 'd) handlerfn =
  "Value \<Rightarrow> ('r, 'd) server \<Rightarrow> (Value option \<times> error option) \<times> ('r, 'd) server"

definition event_handler :: "('r, 'd) Receiver \<Rightarrow> ('r, 'd) handlerfn" where
  "event_handler receiver args w =
     (case Q args of (q, s0) \<Rightarrow>
      case Query_Slice q s0 of (sl, s1) \<Rightarrow>
      if length sl \<noteq> 4 then
        (case Query_Slice q s1 of (sl', s2) \<Rightarrow>
           ((None, Some (Errorf ''Expected 4 arguments for event method: %d''
                           [ArgInt (int (length sl'))])), w))
      else
        case Query_Idx 0 q s1 of (q0, s2) \<Rightarrow>
        case Query_String q0 s2 of (interfaceID, s3) \<Rightarrow>
        case Query_Idx 1 q s3 of (q1, s4) \<Rightarrow>
        case Query_String q1 s4 of (address, s5) \<Rightarrow>
        case Query_Idx 2 q s5 of (q2, s6) \<Rightarrow>
        case Query_String q2 s6 of (valueKey, s7) \<Rightarrow>
        case Query_Idx 3 q s7 of (q3, s8) \<Rightarrow>
        case Query_Any q3 s8 of (val, s9) \<Rightarrow>
        (case s9 of
           Some e \<Rightarrow>
             ((None, Some (Errorf ''Invalid argument for event method: %v'' [ArgErr e])), w)
         | None \<Rightarrow>
             (case invoke (Event receiver interfaceID address valueKey val)
                     (Invoke_Event interfaceID address valueKey val) w of
                (Some err, w') \<Rightarrow> ((None, Some err), w')
              | (None, w') \<Rightarrow> ((Some (VString []), None), w'))))"

text \<open>The comment in the source: this implementation returns always an empty device list.\<close>

definition listDevices_handler :: "('r, 'd) handlerfn" where
  "listDevices_handler args w =
     (case Q args of (q, s0) \<Rightarrow>
      case Query_Slice q s0 of (sl, s1) \<Rightarrow>
      if length sl \<noteq> 1 then
        (case Query_Slice q s1 of (sl', s2) \<Rightarrow>
           ((None, Some (Errorf ''Expected one argument for listDevices method: %d''
                           [ArgInt (int (length sl'))])), w))
      else
        case Query_Idx 0 q s1 of (q0, s2) \<Rightarrow>
        case Query_String q0 s2 of (interfaceID, s3) \<Rightarrow>
        (case s3 of
           Some e \<Rightarrow>
             ((None, Some (Errorf ''Invalid argument for listDevices method: %v'' [ArgErr e])), w)
         | None \<Rightarrow> ((Some (VList []), None), w)))"

text \<open>
  The loop of the newDevices handler: each element is read into a fresh record; the first
  element whose read faults ends the handler with that fault (\<open>Inl\<close>), otherwise the
  record is appended.
\<close>

fun newDevices_loop :: "'d reader \<Rightarrow> Query list \<Rightarrow> 'd list \<Rightarrow> slot \<Rightarrow> error + 'd list" where
  "newDevices_loop rd [] descr s = Inr descr"
| "newDevices_loop rd (q # qs) descr s =
     (case ReadFrom rd q s of (d, s') \<Rightarrow>
        (case s' of
           Some e \<Rightarrow> Inl e
         | None \<Rightarrow> newDevices_loop rd qs (descr @ [d]) s'))"

definition newDevices_handler :: "'d reader \<Rightarrow> ('r, 'd) Receiver \<Rightarrow> ('r, 'd) handlerfn" where
  "newDevices_handler rd receiver args w =
     (case Q args of (q, s0) \<Rightarrow>
      case Query_Slice q s0 of (sl, s1) \<Rightarrow>
      if length sl \<noteq> 2 then
        (case Query_Slice q s1 of (sl', s2) \<Rightarrow>
           ((None, Some (Errorf ''Expected 2 arguments for newDevices method: %d''
                           [ArgInt (int (length sl'))])), w))
      else
        case Query_Idx 0 q s1 of (q0, s2) \<Rightarrow>
        case Query_String q0 s2 of (interfaceID, s3) \<Rightarrow>
        case Query_Idx 1 q s3 of (q1, s4) \<Rightarrow>
        case Query_Slice q1 s4 of (devDescriptions, s5) \<Rightarrow>
        (case s5 of
           Some e \<Rightarrow>
             ((None, Some (Errorf ''Invalid argument for newDevices method: %v'' [ArgErr e])), w)
         | None \<Rightarrow>
             (case newDevices_loop rd devDescriptions [] s5 of
                Inl e \<Rightarrow>
                  ((None, Some (Errorf ''Invalid device description for newDevices method: %v''
                                  [ArgErr e])), w)
              | Inr descr \<Rightarrow>
                  (case invoke (NewDevices receiver interfaceID descr)
                          (Invoke_NewDevices interfaceID descr) w of
                     (Some err, w') \<Rightarrow> ((None, Some err), w')
                   | (None, w') \<Rightarrow> ((Some (VString []), None), w')))))"

text \<open>
  The loop shared by deleteDevices and readdedDevice: every element is coerced to a
  string and appended, faulted or not; the slot is looked at after the loop.
\<close>

fun addresses_loop :: "Query list \<Rightarrow> string list \<Rightarrow> slot \<Rightarrow> string list \<times> slot" where
  "addresses_loop [] addresses s = (addresses, s)"
| "addresses_loop (addrValue # rest) addresses s =
     (case Query_String addrValue s of (a, s') \<Rightarrow> addresses_loop rest (addresses @ [a]) s')"

definition deleteDevices_handler :: "('r, 'd) Receiver \<Rightarrow> ('r, 'd) handlerfn" where
  "deleteDevices_handler receiver args w =
     (case Q args of (q, s0) \<Rightarrow>
      case Query_Slice q s0 of (sl, s1) \<Rightarrow>
      if length sl \<noteq> 2 then
        (case Query_Slice q s1 of (sl', s2) \<Rightarrow>
           ((None, Some (Errorf ''Expected 2 arguments for deleteDevices method: %d''
                           [ArgInt (int (length sl'))])), w))
      else
        case Query_Idx 0 q s1 of (q0, s2) \<Rightarrow>
        case Query_String q0 s2 of (interfaceID, s3) \<Rightarrow>
        case Query_Idx 1 q s3 of (q1, s4) \<Rightarrow>
        case Query_Slice q1 s4 of (addressesValue, s5) \<Rightarrow>
        case addresses_loop addressesValue [] s5 of (addresses, s6) \<Rightarrow>
        (case s6 of
           Some e \<Rightarrow>
             ((None, Some (Errorf ''Invalid argument(s) for deleteDevices method: %v''
                             [ArgErr e])), w)
         | None \<Rightarrow>
             (case invoke (DeleteDevices receiver interfaceID addresses)
                     (Invoke_DeleteDevices interfaceID addresses) w of
                (Some err, w') \<Rightarrow> ((None, Some err), w')
              | (None, w') \<Rightarrow> ((Some (VString []), None), w'))))"

definition updateDevice_handler :: "('r, 'd) Receiver \<Rightarrow> ('r, 'd) handlerfn" where
  "updateDevice_handler receiver args w =
     (case Q args of (q, s0) \<Rightarrow>
      case Query_Slice q s0 of (sl, s1) \<Rightarrow>
      if length sl \<noteq> 3 then
        (case Query_Slice q s1 of (sl', s2) \<Rightarrow>
           ((None, Some (Errorf ''Expected 3 arguments for updateDevice method: %d''
                           [ArgInt (int (length sl'))])), w))
      else
        case Query_Idx 0 q s1 of (q0, s2) \<Rightarrow>
        case Query_String q0 s2 of (interfaceID, s3) \<Rightarrow>
        case Query_Idx 1 q s3 of (q1, s4) \<Rightarrow>
        case Query_String q1 s4 of (address, s5) \<Rightarrow>
        case Query_Idx 2 q s5 of (q2, s6) \<Rightarrow>
        case Query_Int q2 s6 of (hint, s7) \<Rightarrow>
        (case s7 of
           Some e \<Rightarrow>
             ((None, Some (Errorf ''Invalid argument(s) for updateDevice method: %v''
                             [ArgErr e])), w)
         | None \<Rightarrow>
             (case invoke (UpdateDevice receiver interfaceID address hint)
                     (Invoke_UpdateDevice interfaceID address hint) w of
                (Some err, w') \<Rightarrow> ((None, Some err), w')
              | (None, w') \<Rightarrow> ((Some (VString []), None), w'))))"

definition replaceDevice_handler :: "('r, 'd) Receiver \<Rightarrow> ('r, 'd) handlerfn" where
  "replaceDevice_handler receiver args w =
     (case Q args of (q, s0) \<Rightarrow>
      case Query_Slice q s0 of (sl, s1) \<Rightarrow>
      if length sl \<noteq> 3 then
        (case Query_Slice q s1 of (sl', s2) \<Rightarrow>
           ((None, Some (Errorf ''Expected 3 arguments for replaceDevice method: %d''
                           [ArgInt (int (length sl'))])), w))
      else
        case Query_Idx 0 q s1 of (q0, s2) \<Rightarrow>
        case Query_String q0 s2 of (interfaceID, s3) \<Rightarrow>
        case Query_Idx 1 q s3 of (q1, s4) \<Rightarrow>
        case Query_String q1 s4 of (oldDeviceAddress, s5) \<Rightarrow>
        case Query_Idx 2 q s5 of (q2, s6) \<Rightarrow>
        case Query_String q2 s6 of (newDeviceAddress, s7) \<Rightarrow>
        (case s7 of
           Some e \<Rightarrow>
             ((None, Some (Errorf ''Invalid argument(s) for replaceDevice method: %v''
                             [ArgErr e])), w)
         | None \<Rightarrow>
             (case invoke (ReplaceDevice receiver interfaceID oldDeviceAddress newDeviceAddress)
                     (Invoke_ReplaceDevice interfaceID oldDeviceAddress newDeviceAddress) w of
                (Some err, w') \<Rightarrow> ((None, Some err), w')
              | (None, w') \<Rightarrow> ((Some (VString []), None), w'))))"

definition readdedDevice_handler :: "('r, 'd) Receiver \<Rightarrow> ('r, 'd) handlerfn" where
  "readdedDevice_handler receiver args w =
     (case Q args of (q, s0) \<Rightarrow>
      case Query_Slice q s0 of (sl, s1) \<Rightarrow>
      if length sl \<noteq> 2 then
        (case Query_Slice q s1 of (sl', s2) \<Rightarrow>
           ((None, Some (Errorf ''Expected 2 arguments for readdedDevice method: %d''
                           [ArgInt (int (length sl'))])), w))
      else
        case Query_Idx 0 q s1 of (q0, s2) \<Rightarrow>
        case Query_String q0 s2 of (interfaceID, s3) \<Rightarrow>
        case Query_Idx 1 q s3 of (q1, s4) \<Rightarrow>
        case Query_Slice q1 s4 of (deletedAddresses, s5) \<Rightarrow>
        case addresses_loop deletedAddresses [] s5 of (addresses, s6) \<Rightarrow>
        (case s6 of
           Some e \<Rightarrow>
             ((None, Some (Errorf ''Invalid argument(s) for readdedDevice method: %v''
                             [ArgErr e])), w)
         | None \<Rightarrow>
             (case invoke (ReaddedDevice receiver interfaceID addresses)
                     (Invoke_ReaddedDevice interfaceID addresses) w of
                (Some err, w') \<Rightarrow> ((None, Some err), w')
              | (None, w') \<Rightarrow> ((Some (VString []), None), w'))))"

text \<open>
  \<^verbatim>\<open>NewHandler\<close> registers the seven handlers by name (\<^verbatim>\<open>HandleFunc\<close>); the result is
  the table from method name to handler. The introspection methods that
  \<^verbatim>\<open>h.SystemMethods()\<close> adds belong to the embedded \<^verbatim>\<open>xmlrpc.Handler\<close> and are not
  part of this table.
\<close>

definition HandleFunc ::
  "string \<Rightarrow> ('r, 'd) handlerfn \<Rightarrow> (string \<rightharpoonup> ('r, 'd) handlerfn) \<Rightarrow> (string \<rightharpoonup> ('r, 'd) handlerfn)" where
  "HandleFunc name f h = h(name \<mapsto> f)"

definition NewHandler :: "'d reader \<Rightarrow> ('r, 'd) Receiver \<Rightarrow> (string \<rightharpoonup> ('r, 'd) handlerfn)" where
  "NewHandler rd receiver =
     (HandleFunc ''readdedDevice'' (readdedDevice_handler receiver)
     (HandleFunc ''replaceDevice'' (replaceDevice_handler receiver)
     (HandleFunc ''updateDevice'' (updateDevice_handler receiver)
     (HandleFunc ''deleteDevices'' (deleteDevices_handler receiver)
     (HandleFunc ''newDevices'' (newDevices_handler rd receiver)
     (HandleFunc ''listDevices'' listDevices_handler
     (HandleFunc ''event'' (event_handler receiver) Map.empty)))))))"

section \<open>The client side: client.go\<close>

text \<open>
  The two implementations of the interface \<^verbatim>\<open>rpcClient\<close> that \<^verbatim>\<open>NewClient\<close> can embed,
  each constructed with the target address: \<^verbatim>\<open>&xmlrpc.Client{Addr: address}\<close> and
  \<^verbatim>\<open>&binrpc.Client{Addr: address}\<close>.
\<close>

datatype rpcClient = xmlrpc_Client string | binrpc_Client string

record Client =
  Addr :: string
  rpcClient :: rpcClient

text \<open>\<^verbatim>\<open>strings.HasPrefix(s, prefix)\<close>: \<^verbatim>\<open>len(s) >= len(prefix) && s[:len(prefix)] == prefix\<close>.\<close>

definition HasPrefix :: "string \<Rightarrow> string \<Rightarrow> bool" where
  "HasPrefix s p = (length p \<le> length s \<and> take (length p) s = p)"

definition NewClient :: "string \<Rightarrow> Client" where
  "NewClient address =
     (if HasPrefix address ''http://''
      then \<lparr>Addr = address, rpcClient = xmlrpc_Client address\<rparr>
      else \<lparr>Addr = address, rpcClient = binrpc_Client address\<rparr>)"

text \<open>
  Modelled from the spec: the transports themselves are outside this layer (spec section
  6: \<^verbatim>\<open>Call(method, args)\<close> gives a Value or fails). A \<open>transport\<close> says what the remote
  side, in state \<open>'w\<close>, answers to a call made through a given \<open>rpcClient\<close>. The state of
  the client side is the remote state together with the sequence of calls put on the
  wire so far, each with the \<open>rpcClient\<close> that carried it.
\<close>

type_synonym 'w transport =
  "rpcClient \<Rightarrow> string \<Rightarrow> Value list \<Rightarrow> 'w \<Rightarrow> (error + Value) \<times> 'w"

record 'w network =
  remote :: 'w
  calls :: "(rpcClient \<times> string \<times> Value list) list"

definition Call ::
  "'w transport \<Rightarrow> Client \<Rightarrow> string \<Rightarrow> Value list \<Rightarrow> 'w network \<Rightarrow> (error + Value) \<times> 'w network" where
  "Call tr c method params w =
     (case tr (rpcClient c) method params (remote w) of
        (r, t') \<Rightarrow> (r, \<lparr>remote = t', calls = calls w @ [(rpcClient c, method, params)]\<rparr>))"

definition GetDeviceDescription ::
  "'w transport \<Rightarrow> 'd reader \<Rightarrow> Client \<Rightarrow> string \<Rightarrow> 'w network
     \<Rightarrow> ('d option \<times> error option) \<times> 'w network" where
  "GetDeviceDescription tr rd c deviceAddress w =
     (case Call tr c ''getDeviceDescription'' [VString deviceAddress] w of
        (Inl err, w') \<Rightarrow> ((None, Some err), w')
      | (Inr v, w') \<Rightarrow>
          (case Q v of (e, s0) \<Rightarrow>
           case ReadFrom rd e s0 of (d, s1) \<Rightarrow>
           (case s1 of
              Some x \<Rightarrow>
                ((None, Some (Errorf ''Invalid XML response for getDeviceDescription: %v''
                                [ArgErr x])), w')
            | None \<Rightarrow> ((Some d, None), w'))))"

fun ListDevices_loop :: "'d reader \<Rightarrow> Query list \<Rightarrow> 'd list \<Rightarrow> slot \<Rightarrow> 'd list \<times> slot" where
  "ListDevices_loop rd [] r s = (r, s)"
| "ListDevices_loop rd (av # avs) r s =
     (case ReadFrom rd av s of (d, s') \<Rightarrow> ListDevices_loop rd avs (r @ [d]) s')"

text \<open>A nil slice of the source is the empty list.\<close>

definition ListDevices ::
  "'w transport \<Rightarrow> 'd reader \<Rightarrow> Client \<Rightarrow> 'w network \<Rightarrow> ('d list \<times> error option) \<times> 'w network" where
  "ListDevices tr rd c w =
     (case Call tr c ''listDevices'' [] w of
        (Inl err, w') \<Rightarrow> (([], Some err), w')
      | (Inr v, w') \<Rightarrow>
          (case Q v of (e, s0) \<Rightarrow>
           case Query_Slice e s0 of (sl, s1) \<Rightarrow>
           case ListDevices_loop rd sl [] s1 of (r, s2) \<Rightarrow>
           (case s2 of
              Some x \<Rightarrow>
                (([], Some (Errorf ''Invalid XML response for listDevices: %v'' [ArgErr x])), w')
            | None \<Rightarrow> ((r, None), w'))))"

text \<open>
  \<^verbatim>\<open>range\<close> over a Go map visits the entries in an order the language leaves open. The
  operations that range over \<^verbatim>\<open>e.Map()\<close> take the order as a parameter \<open>visit\<close>, which
  rearranges the entries. The loop of \<^verbatim>\<open>GetParamsetDescription\<close> reads each entry into a
  fresh record and leaves the loop at the first fault (\<^verbatim>\<open>break\<close>), before the entry is
  stored.
\<close>

fun GetParamsetDescription_loop ::
  "'p reader \<Rightarrow> (string \<times> Query) list \<Rightarrow> (string \<rightharpoonup> 'p) \<Rightarrow> slot \<Rightarrow> (string \<rightharpoonup> 'p) \<times> slot" where
  "GetParamsetDescription_loop rp [] r s = (r, s)"
| "GetParamsetDescription_loop rp ((n, v) # rest) r s =
     (case ReadFrom rp v s of (p, s') \<Rightarrow>
        if s' \<noteq> None then (r, s')
        else GetParamsetDescription_loop rp rest (r(n \<mapsto> p)) s')"

text \<open>The result map is an option: \<open>None\<close> is Go's nil map.\<close>

definition GetParamsetDescription ::
  "'w transport \<Rightarrow> 'p reader \<Rightarrow> ((string \<times> Query) list \<Rightarrow> (string \<times> Query) list) \<Rightarrow> Client
     \<Rightarrow> string \<Rightarrow> string \<Rightarrow> 'w network
     \<Rightarrow> ((string \<rightharpoonup> 'p) option \<times> error option) \<times> 'w network" where
  "GetParamsetDescription tr rp visit c deviceAddress paramsetType w =
     (case Call tr c ''getParamsetDescription'' [VString deviceAddress, VString paramsetType] w of
        (Inl err, w') \<Rightarrow> ((None, Some err), w')
      | (Inr v, w') \<Rightarrow>
          (case Q v of (e, s0) \<Rightarrow>
           case Query_Map e s0 of (m, s1) \<Rightarrow>
           case GetParamsetDescription_loop rp (visit m) Map.empty s1 of (r, s2) \<Rightarrow>
           (case s2 of
              Some x \<Rightarrow>
                ((None, Some (Errorf ''Invalid XML response for getParamsetDescription: %v''
                                [ArgErr x])), w')
            | None \<Rightarrow> ((Some r, None), w'))))"

fun GetParamset_loop ::
  "(string \<times> Query) list \<Rightarrow> (string \<rightharpoonup> any) \<Rightarrow> slot \<Rightarrow> (string \<rightharpoonup> any) \<times> slot" where
  "GetParamset_loop [] r s = (r, s)"
| "GetParamset_loop ((n, v) # rest) r s =
     (case Query_Any v s of (vv, s') \<Rightarrow>
        if s' \<noteq> None then (r, s')
        else GetParamset_loop rest (r(n \<mapsto> vv)) s')"

definition GetParamset ::
  "'w transport \<Rightarrow> ((string \<times> Query) list \<Rightarrow> (string \<times> Query) list) \<Rightarrow> Client
     \<Rightarrow> string \<Rightarrow> string \<Rightarrow> 'w network
     \<Rightarrow> ((string \<rightharpoonup> any) option \<times> error option) \<times> 'w network" where
  "GetParamset tr visit c deviceAddress paramsetType w =
     (case Call tr c ''getParamset'' [VString deviceAddress, VString paramsetType] w of
        (Inl err, w') \<Rightarrow> ((None, Some err), w')
      | (Inr v, w') \<Rightarrow>
          (case Q v of (e, s0) \<Rightarrow>
           case Query_Map e s0 of (m, s1) \<Rightarrow>
           case GetParamset_loop (visit m) Map.empty s1 of (r, s2) \<Rightarrow>
           (case s2 of
              Some x \<Rightarrow>
                ((None, Some (Errorf ''Invalid XML response for getParamset: %v'' [ArgErr x])), w')
            | None \<Rightarrow> ((Some r, None), w'))))"

definition assertEmptyResponse :: "Value \<Rightarrow> error option" where
  "assertEmptyResponse v =
     (case Q v of (eval, s0) \<Rightarrow>
      case Query_String eval s0 of (s, s1) \<Rightarrow>
      if s1 \<noteq> None \<or> s \<noteq> [] then Some (errors_New ''Expected emtpy string as response'')
      else None)"

text \<open>
  \<^verbatim>\<open>model.NewValue\<close>, which renders a Go value as a Value or fails, is outside the
  verified files: the operations that use it take it as the parameter \<open>nv\<close>.
\<close>

definition PutParamset ::
  "'w transport \<Rightarrow> (any \<Rightarrow> error + Value) \<Rightarrow> Client \<Rightarrow> string \<Rightarrow> string \<Rightarrow> (string \<times> any) list
     \<Rightarrow> 'w network \<Rightarrow> error option \<times> 'w network" where
  "PutParamset tr nv c deviceAddress paramsetType paramset w =
     (case nv (AMap paramset) of
        Inl err \<Rightarrow> (Some err, w)
      | Inr ps \<Rightarrow>
          (case Call tr c ''putParamset'' [VString deviceAddress, VString paramsetType, ps] w of
             (Inl err, w') \<Rightarrow> (Some err, w')
           | (Inr resp, w') \<Rightarrow>
               (case assertEmptyResponse resp of
                  Some err \<Rightarrow>
                    (Some (Errorf ''Invalid response for method putParamset: %v'' [ArgErr err]), w')
                | None \<Rightarrow> (None, w'))))"

definition SetValue ::
  "'w transport \<Rightarrow> (any \<Rightarrow> error + Value) \<Rightarrow> Client \<Rightarrow> string \<Rightarrow> string \<Rightarrow> any
     \<Rightarrow> 'w network \<Rightarrow> error option \<times> 'w network" where
  "SetValue tr nv c deviceAddress valueName val w =
     (case nv val of
        Inl err \<Rightarrow> (Some err, w)
      | Inr v \<Rightarrow>
          (case Call tr c ''setValue'' [VString deviceAddress, VString valueName, v] w of
             (Inl err, w') \<Rightarrow> (Some err, w')
           | (Inr resp, w') \<Rightarrow>
               (case assertEmptyResponse resp of
                  Some err \<Rightarrow>
                    (Some (Errorf ''Invalid response for method setValue: %v'' [ArgErr err]), w')
                | None \<Rightarrow> (None, w'))))"

definition GetValue ::
  "'w transport \<Rightarrow> Client \<Rightarrow> string \<Rightarrow> string \<Rightarrow> 'w network
     \<Rightarrow> (any \<times> error option) \<times> 'w network" where
  "GetValue tr c deviceAddress valueName w =
     (case Call tr c ''getValue'' [VString deviceAddress, VString valueName] w of
        (Inl err, w') \<Rightarrow> ((ANil, Some err), w')
      | (Inr resp, w') \<Rightarrow>
          (case Q resp of (q, s0) \<Rightarrow>
           case Query_Any q s0 of (res, s1) \<Rightarrow>
           (case s1 of
              Some x \<Rightarrow>
                ((ANil, Some (Errorf ''Invalid response from method getValue: %v'' [ArgErr x])), w')
            | None \<Rightarrow> ((res, None), w'))))"

definition Init ::
  "'w transport \<Rightarrow> Client \<Rightarrow> string \<Rightarrow> string \<Rightarrow> 'w network \<Rightarrow> error option \<times> 'w network" where
  "Init tr c receiverAddress ident w =
     (case Call tr c ''init'' [VString receiverAddress, VString ident] w of
        (Inl err, w') \<Rightarrow> (Some err, w')
      | (Inr resp, w') \<Rightarrow>
          (case assertEmptyResponse resp of
             Some err \<Rightarrow> (Some (Errorf ''Invalid response for method init: %v'' [ArgErr err]), w')
           | None \<Rightarrow> (None, w')))"

text \<open>The comment in the source at the argument list: omit 2nd parameter.\<close>

definition Deinit ::
  "'w transport \<Rightarrow> Client \<Rightarrow> string \<Rightarrow> 'w network \<Rightarrow> error option \<times> 'w network" where
  "Deinit tr c receiverAddress w =
     (case Call tr c ''init'' [VString receiverAddress] w of
        (Inl err, w') \<Rightarrow> (Some err, w')
      | (Inr resp, w') \<Rightarrow>
          (case assertEmptyResponse resp of
             Some err \<Rightarrow> (Some (Errorf ''Invalid response for method init: %v'' [ArgErr err]), w')
           | None \<Rightarrow> (None, w')))"

text \<open>
  \<^verbatim>\<open>Ping\<close>: the response is first read as a bool; when that faults, a second Query over
  the same response (with a slot of its own) reads element 0 as a bool; the comment in
  the source: BidCos-RF returns an array with one bool.
\<close>

definition Ping ::
  "'w transport \<Rightarrow> Client \<Rightarrow> string \<Rightarrow> 'w network \<Rightarrow> (bool \<times> error option) \<times> 'w network" where
  "Ping tr c callerID w =
     (case Call tr c ''ping'' [VString callerID] w of
        (Inl err, w') \<Rightarrow> ((False, Some err), w')
      | (Inr resp, w') \<Rightarrow>
          (case Q resp of (q, s0) \<Rightarrow>
           case Query_Bool q s0 of (res, qErr) \<Rightarrow>
           (case qErr of
              Some e1 \<Rightarrow>
                (case Q resp of (q2, t0) \<Rightarrow>
                 case Query_Idx 0 q2 t0 of (q2i, t1) \<Rightarrow>
                 case Query_Bool q2i t1 of (res2, q2Err) \<Rightarrow>
                 (case q2Err of
                    Some e2 \<Rightarrow>
                      ((False, Some (Errorf ''Invalid response from method ping: %v, %v''
                                       [ArgErr e1, ArgErr e2])), w')
                  | None \<Rightarrow> ((res2, None), w')))
            | None \<Rightarrow> ((res, None), w'))))"

text \<open>The client's \<^verbatim>\<open>Event\<close> operation (the receiver's callback has the name \<open>Event\<close>).\<close>

definition Client_Event ::
  "'w transport \<Rightarrow> (any \<Rightarrow> error + Value) \<Rightarrow> Client \<Rightarrow> string \<Rightarrow> string \<Rightarrow> string \<Rightarrow> any
     \<Rightarrow> 'w network \<Rightarrow> error option \<times> 'w network" where
  "Client_Event tr nv c interfaceID address valueKey val w =
     (case nv val of
        Inl err \<Rightarrow> (Some err, w)
      | Inr v \<Rightarrow>
          (case Call tr c ''event''
                  [VString interfaceID, VString address, VString valueKey, v] w of
             (Inl err, w') \<Rightarrow> (Some err, w')
           | (Inr resp, w') \<Rightarrow>
               (case assertEmptyResponse resp of
                  Some err \<Rightarrow>
                    (Some (Errorf ''Invalid response for method event: %v'' [ArgErr err]), w')
                | None \<Rightarrow> (None, w'))))"

section \<open>Test doubles\<close>

text \<open>
  Concrete collaborators on which the model is run: a receiver whose callbacks all fail,
  a receiver whose callbacks all succeed, and a reader that accepts exactly the named
  maps.
\<close>

definition refusing_Receiver :: "(unit, unit) Receiver" where
  "refusing_Receiver =
     \<lparr>Event = (\<lambda>i a k v r. (Some (errors_New ''refused''), r)),
      NewDevices = (\<lambda>i ds r. (Some (errors_New ''refused''), r)),
      DeleteDevices = (\<lambda>i as r. (Some (errors_New ''refused''), r)),
      UpdateDevice = (\<lambda>i a h r. (Some (errors_New ''refused''), r)),
      ReplaceDevice = (\<lambda>i a b r. (Some (errors_New ''refused''), r)),
      ReaddedDevice = (\<lambda>i as r. (Some (errors_New ''refused''), r))\<rparr>"

definition accepting_Receiver :: "(unit, unit) Receiver" where
  "accepting_Receiver =
     \<lparr>Event = (\<lambda>i a k v r. (None, r)),
      NewDevices = (\<lambda>i ds r. (None, r)),
      DeleteDevices = (\<lambda>i as r. (None, r)),
      UpdateDevice = (\<lambda>i a h r. (None, r)),
      ReplaceDevice = (\<lambda>i a b r. (None, r)),
      ReaddedDevice = (\<lambda>i as r. (None, r))\<rparr>"

definition strict_reader :: "unit reader" where
  "strict_reader =
     \<lparr>fresh = (), populate = (\<lambda>v. case v of VMap kvs \<Rightarrow> ((), None) | _ \<Rightarrow> ((), Some TypeMismatch))\<rparr>"

section \<open>Facts about the Query accessors, the loops and the handlers\<close>

lemma Slice_VList [simp]: "Query_Slice (VList xs) None = (xs, None)"
  by (simp add: Query_Slice_def)

lemma Slice_faulted [simp]: "Query_Slice q (Some e) = ([], Some e)"
  by (simp add: Query_Slice_def)

lemma String_VString [simp]: "Query_String (VString x) None = (x, None)"
  by (simp add: Query_String_def)

lemma String_faulted [simp]: "Query_String q (Some e) = ([], Some e)"
  by (simp add: Query_String_def)

lemma Idx_faulted [simp]: "Query_Idx i q (Some e) = (q, Some e)"
  by (simp add: Query_Idx_def)

lemma Idx_0 [simp]: "Query_Idx 0 (VList (x # xs)) None = (x, None)"
  by (simp add: Query_Idx_def)

lemma Idx_1 [simp]: "Query_Idx 1 (VList (x0 # x # xs)) None = (x, None)"
  by (simp add: Query_Idx_def)

lemma Idx_2 [simp]: "Query_Idx 2 (VList (x0 # x1 # x # xs)) None = (x, None)"
  by (simp add: Query_Idx_def)

lemma Idx_3 [simp]: "Query_Idx 3 (VList (x0 # x1 # x2 # x # xs)) None = (x, None)"
  by (simp add: Query_Idx_def)

lemma HasPrefix_prefix: "HasPrefix s p \<longleftrightarrow> prefix p s"
  by (auto simp: HasPrefix_def prefix_def) (metis append_eq_conv_conj)

lemma assertEmptyResponse_iff: "assertEmptyResponse v = None \<longleftrightarrow> v = VString []"
  by (cases v) (simp_all add: assertEmptyResponse_def Q_def Query_String_def)

lemma assertEmptyResponse_error:
  "v \<noteq> VString [] \<Longrightarrow>
   assertEmptyResponse v = Some (errors_New ''Expected emtpy string as response'')"
  by (cases v) (simp_all add: assertEmptyResponse_def Q_def Query_String_def)

lemma NewHandler_table:
  "NewHandler rd receiver ''event'' = Some (event_handler receiver)"
  "NewHandler rd receiver ''listDevices'' = Some listDevices_handler"
  "NewHandler rd receiver ''newDevices'' = Some (newDevices_handler rd receiver)"
  "NewHandler rd receiver ''deleteDevices'' = Some (deleteDevices_handler receiver)"
  "NewHandler rd receiver ''updateDevice'' = Some (updateDevice_handler receiver)"
  "NewHandler rd receiver ''replaceDevice'' = Some (replaceDevice_handler receiver)"
  "NewHandler rd receiver ''readdedDevice'' = Some (readdedDevice_handler receiver)"
  by (simp_all add: NewHandler_def HandleFunc_def)

lemma event_arity:
  "length xs \<noteq> 4 \<Longrightarrow> event_handler receiver (VList xs) w =
     ((None, Some (Errorf ''Expected 4 arguments for event method: %d''
                     [ArgInt (int (length xs))])), w)"
  by (simp add: event_handler_def Q_def)

lemma listDevices_arity:
  "length xs \<noteq> 1 \<Longrightarrow> listDevices_handler (VList xs) w =
     ((None, Some (Errorf ''Expected one argument for listDevices method: %d''
                     [ArgInt (int (length xs))])), w)"
  by (simp add: listDevices_handler_def Q_def)

lemma newDevices_arity:
  "length xs \<noteq> 2 \<Longrightarrow> newDevices_handler rd receiver (VList xs) w =
     ((None, Some (Errorf ''Expected 2 arguments for newDevices method: %d''
                     [ArgInt (int (length xs))])), w)"
  by (simp add: newDevices_handler_def Q_def)

lemma deleteDevices_arity:
  "length xs \<noteq> 2 \<Longrightarrow> deleteDevices_handler receiver (VList xs) w =
     ((None, Some (Errorf ''Expected 2 arguments for deleteDevices method: %d''
                     [ArgInt (int (length xs))])), w)"
  by (simp add: deleteDevices_handler_def Q_def)

lemma updateDevice_arity:
  "length xs \<noteq> 3 \<Longrightarrow> updateDevice_handler receiver (VList xs) w =
     ((None, Some (Errorf ''Expected 3 arguments for updateDevice method: %d''
                     [ArgInt (int (length xs))])), w)"
  by (simp add: updateDevice_handler_def Q_def)

lemma replaceDevice_arity:
  "length xs \<noteq> 3 \<Longrightarrow> replaceDevice_handler receiver (VList xs) w =
     ((None, Some (Errorf ''Expected 3 arguments for replaceDevice method: %d''
                     [ArgInt (int (length xs))])), w)"
  by (simp add: replaceDevice_handler_def Q_def)

lemma readdedDevice_arity:
  "length xs \<noteq> 2 \<Longrightarrow> readdedDevice_handler receiver (VList xs) w =
     ((None, Some (Errorf ''Expected 2 arguments for readdedDevice method: %d''
                     [ArgInt (int (length xs))])), w)"
  by (simp add: readdedDevice_handler_def Q_def)

lemma addresses_loop_strings:
  "addresses_loop (map VString as) acc None = (acc @ as, None)"
  by (induction as arbitrary: acc) simp_all

lemma newDevices_loop_all:
  "\<forall>x\<in>set ds. snd (populate rd x) = None \<Longrightarrow>
   newDevices_loop rd ds acc None = Inr (acc @ map (\<lambda>x. fst (populate rd x)) ds)"
  by (induction ds arbitrary: acc) (auto simp: ReadFrom_def split: prod.splits option.splits)

lemma newDevices_loop_first_fault:
  "\<forall>x\<in>set pre. snd (populate rd x) = None \<Longrightarrow> snd (populate rd d) = Some e \<Longrightarrow>
   newDevices_loop rd (pre @ d # post) acc None = Inl e"
  by (induction pre arbitrary: acc) (auto simp: ReadFrom_def split: prod.splits option.splits)

lemma event_forwards:
  "event_handler receiver (VList [VString i, VString a, VString k, v]) w =
     (case invoke (Event receiver i a k (any_of v)) (Invoke_Event i a k (any_of v)) w of
        (Some err, w') \<Rightarrow> ((None, Some err), w')
      | (None, w') \<Rightarrow> ((Some (VString []), None), w'))"
  by (simp add: event_handler_def Q_def Query_Any_def)

lemma newDevices_forwards:
  "\<forall>x\<in>set ds. snd (populate rd x) = None \<Longrightarrow>
   newDevices_handler rd receiver (VList [VString i, VList ds]) w =
     (case invoke (NewDevices receiver i (map (\<lambda>x. fst (populate rd x)) ds))
             (Invoke_NewDevices i (map (\<lambda>x. fst (populate rd x)) ds)) w of
        (Some err, w') \<Rightarrow> ((None, Some err), w')
      | (None, w') \<Rightarrow> ((Some (VString []), None), w'))"
  by (simp add: newDevices_handler_def Q_def newDevices_loop_all)

lemma deleteDevices_forwards:
  "deleteDevices_handler receiver (VList [VString i, VList (map VString as)]) w =
     (case invoke (DeleteDevices receiver i as) (Invoke_DeleteDevices i as) w of
        (Some err, w') \<Rightarrow> ((None, Some err), w')
      | (None, w') \<Rightarrow> ((Some (VString []), None), w'))"
  by (simp add: deleteDevices_handler_def Q_def addresses_loop_strings)

lemma updateDevice_forwards:
  "updateDevice_handler receiver (VList [VString i, VString a, VNumber h]) w =
     (case invoke (UpdateDevice receiver i a h) (Invoke_UpdateDevice i a h) w of
        (Some err, w') \<Rightarrow> ((None, Some err), w')
      | (None, w') \<Rightarrow> ((Some (VString []), None), w'))"
  by (simp add: updateDevice_handler_def Q_def Query_Int_def)

lemma replaceDevice_forwards:
  "replaceDevice_handler receiver (VList [VString i, VString a, VString b]) w =
     (case invoke (ReplaceDevice receiver i a b) (Invoke_ReplaceDevice i a b) w of
        (Some err, w') \<Rightarrow> ((None, Some err), w')
      | (None, w') \<Rightarrow> ((Some (VString []), None), w'))"
  by (simp add: replaceDevice_handler_def Q_def)

lemma readdedDevice_forwards:
  "readdedDevice_handler receiver (VList [VString i, VList (map VString as)]) w =
     (case invoke (ReaddedDevice receiver i as) (Invoke_ReaddedDevice i as) w of
        (Some err, w') \<Rightarrow> ((None, Some err), w')
      | (None, w') \<Rightarrow> ((Some (VString []), None), w'))"
  by (simp add: readdedDevice_handler_def Q_def addresses_loop_strings)

lemma GetParamsetDescription_loop_fault:
  "(n, v) \<in> set es \<Longrightarrow> snd (populate rp v) \<noteq> None \<Longrightarrow>
   snd (GetParamsetDescription_loop rp es r None) \<noteq> None"
  by (induction es arbitrary: r) (auto simp: ReadFrom_def split: prod.splits)

lemma GetParamsetDescription_loop_fault_origin:
  "snd (GetParamsetDescription_loop rp es r None) = Some e \<Longrightarrow>
   \<exists>(n, v)\<in>set es. snd (populate rp v) = Some e"
proof (induction es arbitrary: r)
  case Nil
  then show ?case by simp
next
  case (Cons x es)
  obtain n v where x: "x = (n, v)" by (cases x)
  obtain p s' where pv: "populate rp v = (p, s')" by (cases "populate rp v")
  show ?case
  proof (cases s')
    case None
    then have "GetParamsetDescription_loop rp (x # es) r None =
                 GetParamsetDescription_loop rp es (r(n \<mapsto> p)) None"
      using x pv by (simp add: ReadFrom_def)
    with Cons.prems have "snd (GetParamsetDescription_loop rp es (r(n \<mapsto> p)) None) = Some e"
      by simp
    from Cons.IH [OF this] show ?thesis by auto
  next
    case (Some e')
    then have "GetParamsetDescription_loop rp (x # es) r None = (r, Some e')"
      using x pv by (simp add: ReadFrom_def)
    with Cons.prems have "e' = e" by simp
    then show ?thesis using x pv Some by simp
  qed
qed

section \<open>The claims\<close>

text \<open>
  Claim C1. Whatever response the transport delivers to \<open>Ping\<close>: if it reads as a bool
  \<open>b\<close>, \<open>Ping\<close> returns \<open>(b, nil)\<close>; if that read faults but element 0 of the response
  read as a list is a bool \<open>b\<close>, \<open>Ping\<close> returns \<open>(b, nil)\<close>; if both reads fault, \<open>Ping\<close>
  returns false and an error built from both faults, the fault of the bool read first.
\<close>

theorem Ping_decoding:
  assumes call: "tr (rpcClient c) ''ping'' [VString callerID] (remote w) = (Inr resp, t')"
  shows "(\<forall>b. Query_Bool resp None = (b, None) \<longrightarrow> fst (Ping tr c callerID w) = (b, None)) \<and>
         (\<forall>x e1 el b. Query_Bool resp None = (x, Some e1) \<and> Query_Idx 0 resp None = (el, None) \<and>
              Query_Bool el None = (b, None) \<longrightarrow> fst (Ping tr c callerID w) = (b, None)) \<and>
         (\<forall>x e1 el s y e2. Query_Bool resp None = (x, Some e1) \<and> Query_Idx 0 resp None = (el, s) \<and>
              Query_Bool el s = (y, Some e2) \<longrightarrow>
              fst (Ping tr c callerID w) =
                (False, Some (Errorf ''Invalid response from method ping: %v, %v''
                                [ArgErr e1, ArgErr e2])))"
  using call by (simp add: Ping_def Call_def Q_def)

text \<open>The responses \<^verbatim>\<open>true\<close>, \<^verbatim>\<open>[true]\<close> and \<^verbatim>\<open>"foo"\<close>.\<close>

theorem Ping_decoding_witness:
  "fst (Ping (\<lambda>k m ps t. (Inr (VBool True), t)) (NewClient ''ccu:2001'') ''app''
          \<lparr>remote = (), calls = []\<rparr>) = (True, None)
   \<and> fst (Ping (\<lambda>k m ps t. (Inr (VList [VBool True]), t)) (NewClient ''ccu:2001'') ''app''
          \<lparr>remote = (), calls = []\<rparr>) = (True, None)
   \<and> fst (Ping (\<lambda>k m ps t. (Inr (VString ''foo''), t)) (NewClient ''ccu:2001'') ''app''
          \<lparr>remote = (), calls = []\<rparr>) =
        (False, Some (Errorf ''Invalid response from method ping: %v, %v''
                        [ArgErr TypeMismatch, ArgErr IndexOutOfRange]))"
  using Ping_decoding [of "\<lambda>k m ps t. (Inr (VBool True), t)" "NewClient ''ccu:2001''" "''app''"
          "\<lparr>remote = (), calls = []\<rparr>" "VBool True" "()"]
        Ping_decoding [of "\<lambda>k m ps t. (Inr (VList [VBool True]), t)" "NewClient ''ccu:2001''" "''app''"
          "\<lparr>remote = (), calls = []\<rparr>" "VList [VBool True]" "()"]
        Ping_decoding [of "\<lambda>k m ps t. (Inr (VString ''foo''), t)" "NewClient ''ccu:2001''" "''app''"
          "\<lparr>remote = (), calls = []\<rparr>" "VString ''foo''" "()"]
  by (auto simp: Query_Bool_def Query_Idx_def)

text \<open>
  Claim C2. For an argument list of exactly one string, whatever the interface id, the
  receiver and its state, the handler registered as listDevices returns the empty
  ordered list with no error and leaves the server state as it was: no callback of the
  receiver is invoked (the handler does not even take the receiver).
\<close>

theorem listDevices_always_empty:
  "NewHandler rd receiver ''listDevices'' = Some listDevices_handler \<and>
   listDevices_handler (VList [VString interfaceID]) w = ((Some (VList []), None), w)"
  by (simp add: NewHandler_table listDevices_handler_def Q_def)

text \<open>The call \<^verbatim>\<open>listDevices("itf")\<close>.\<close>

theorem listDevices_always_empty_witness:
  "listDevices_handler (VList [VString ''itf'']) \<lparr>rstate = (), invoked = ([] :: unit invocation list)\<rparr> =
     ((Some (VList []), None), \<lparr>rstate = (), invoked = []\<rparr>)"
  using listDevices_always_empty
          [THEN conjunct2, of "''itf''" "\<lparr>rstate = (), invoked = ([] :: unit invocation list)\<rparr>"]
  by simp

text \<open>
  Claim C3. For every receiver address, \<open>Deinit\<close> puts exactly one call on the wire: the
  method \<^verbatim>\<open>init\<close> with the receiver address as its only argument. \<open>Init\<close> puts the same
  method on the wire with the interface id as second argument.
\<close>

theorem Deinit_omits_interface_id:
  "calls (snd (Deinit tr c receiverAddress w)) =
     calls w @ [(rpcClient c, ''init'', [VString receiverAddress])] \<and>
   calls (snd (Init tr c receiverAddress ident w)) =
     calls w @ [(rpcClient c, ''init'', [VString receiverAddress, VString ident])]"
  by (simp add: Deinit_def Init_def Call_def split: prod.splits sum.splits option.splits)

text \<open>Both operations on a fresh wire.\<close>

theorem Deinit_omits_interface_id_witness:
  "calls (snd (Deinit (\<lambda>k m ps t. (Inr (VString []), t)) (NewClient ''ccu:2001'')
                 ''http://host:2155'' \<lparr>remote = (), calls = []\<rparr>)) =
     [(binrpc_Client ''ccu:2001'', ''init'', [VString ''http://host:2155''])] \<and>
   calls (snd (Init (\<lambda>k m ps t. (Inr (VString []), t)) (NewClient ''ccu:2001'')
                 ''http://host:2155'' ''itf'' \<lparr>remote = (), calls = []\<rparr>)) =
     [(binrpc_Client ''ccu:2001'', ''init'', [VString ''http://host:2155'', VString ''itf''])]"
  using Deinit_omits_interface_id [of "\<lambda>k m ps t. (Inr (VString []), t)" "NewClient ''ccu:2001''"
          "''http://host:2155''" "\<lparr>remote = (), calls = []\<rparr>" "''itf''"]
  by (simp add: NewClient_def HasPrefix_def)

text \<open>
  Claim C4. For each of the seven registered methods and every argument list whose length
  differs from the count the method requires (event 4, listDevices 1, newDevices 2,
  deleteDevices 2, updateDevice 3, replaceDevice 3, readdedDevice 2), the handler returns
  no value and the error whose format string names the method and whose argument is the
  received count, and the server state is unchanged: the receiver is not invoked.
\<close>

theorem arity_checked_first:
  "NewHandler rd receiver ''event'' = Some (event_handler receiver) \<and>
   (length xs \<noteq> 4 \<longrightarrow> event_handler receiver (VList xs) w =
      ((None, Some (Errorf ''Expected 4 arguments for event method: %d''
                      [ArgInt (int (length xs))])), w)) \<and>
   NewHandler rd receiver ''listDevices'' = Some listDevices_handler \<and>
   (length xs \<noteq> 1 \<longrightarrow> listDevices_handler (VList xs) w =
      ((None, Some (Errorf ''Expected one argument for listDevices method: %d''
                      [ArgInt (int (length xs))])), w)) \<and>
   NewHandler rd receiver ''newDevices'' = Some (newDevices_handler rd receiver) \<and>
   (length xs \<noteq> 2 \<longrightarrow> newDevices_handler rd receiver (VList xs) w =
      ((None, Some (Errorf ''Expected 2 arguments for newDevices method: %d''
                      [ArgInt (int (length xs))])), w)) \<and>
   NewHandler rd receiver ''deleteDevices'' = Some (deleteDevices_handler receiver) \<and>
   (length xs \<noteq> 2 \<longrightarrow> deleteDevices_handler receiver (VList xs) w =
      ((None, Some (Errorf ''Expected 2 arguments for deleteDevices method: %d''
                      [ArgInt (int (length xs))])), w)) \<and>
   NewHandler rd receiver ''updateDevice'' = Some (updateDevice_handler receiver) \<and>
   (length xs \<noteq> 3 \<longrightarrow> updateDevice_handler receiver (VList xs) w =
      ((None, Some (Errorf ''Expected 3 arguments for updateDevice method: %d''
                      [ArgInt (int (length xs))])), w)) \<and>
   NewHandler rd receiver ''replaceDevice'' = Some (replaceDevice_handler receiver) \<and>
   (length xs \<noteq> 3 \<longrightarrow> replaceDevice_handler receiver (VList xs) w =
      ((None, Some (Errorf ''Expected 3 arguments for replaceDevice method: %d''
                      [ArgInt (int (length xs))])), w)) \<and>
   NewHandler rd receiver ''readdedDevice'' = Some (readdedDevice_handler receiver) \<and>
   (length xs \<noteq> 2 \<longrightarrow> readdedDevice_handler receiver (VList xs) w =
      ((None, Some (Errorf ''Expected 2 arguments for readdedDevice method: %d''
                      [ArgInt (int (length xs))])), w))"
  using event_arity [of xs receiver w] listDevices_arity [of xs w]
    newDevices_arity [of xs rd receiver w] deleteDevices_arity [of xs receiver w]
    updateDevice_arity [of xs receiver w] replaceDevice_arity [of xs receiver w]
    readdedDevice_arity [of xs receiver w]
  by (simp add: NewHandler_table)

text \<open>The event method with three well-typed arguments.\<close>

theorem arity_checked_first_witness:
  "event_handler refusing_Receiver (VList [VString ''itf'', VString ''ABC:1'', VString ''STATE'']) 
      \<lparr>rstate = (), invoked = []\<rparr> =
     ((None, Some (Errorf ''Expected 4 arguments for event method: %d'' [ArgInt 3])),
      \<lparr>rstate = (), invoked = []\<rparr>)"
  using arity_checked_first [of _ refusing_Receiver "[VString ''itf'', VString ''ABC:1'', VString ''STATE'']"
          "\<lparr>rstate = (), invoked = []\<rparr>"]
  by simp

text \<open>
  Claim C5. \<open>assertEmptyResponse\<close> succeeds exactly when the response reads as a string
  and that string is empty, that is, exactly on the empty scalar string; on every other
  response it returns an error. Each of the operations \<open>PutParamset\<close>, \<open>SetValue\<close>,
  \<open>Init\<close>, \<open>Deinit\<close> and the client's \<open>Event\<close> then fails with an error whose text names
  the wire method the operation called (for \<open>Deinit\<close> that method is \<^verbatim>\<open>init\<close>).
\<close>

theorem void_response_must_be_empty_string:
  "(assertEmptyResponse v = None \<longleftrightarrow> Query_String v None = ([], None)) \<and>
   (assertEmptyResponse v = None \<longleftrightarrow> v = VString []) \<and>
   (v \<noteq> VString [] \<longrightarrow>
      assertEmptyResponse v = Some (errors_New ''Expected emtpy string as response'')) \<and>
   (nv (AMap paramset) = Inr ps \<and>
    tr (rpcClient c) ''putParamset'' [VString d, VString p, ps] (remote w) = (Inr v, t') \<and>
    v \<noteq> VString [] \<longrightarrow>
      fst (PutParamset tr nv c d p paramset w) =
        Some (Errorf ''Invalid response for method putParamset: %v''
                [ArgErr (errors_New ''Expected emtpy string as response'')])) \<and>
   (nv x = Inr xv \<and>
    tr (rpcClient c) ''setValue'' [VString d, VString n, xv] (remote w) = (Inr v, t') \<and>
    v \<noteq> VString [] \<longrightarrow>
      fst (SetValue tr nv c d n x w) =
        Some (Errorf ''Invalid response for method setValue: %v''
                [ArgErr (errors_New ''Expected emtpy string as response'')])) \<and>
   (tr (rpcClient c) ''init'' [VString ra, VString ident] (remote w) = (Inr v, t') \<and>
    v \<noteq> VString [] \<longrightarrow>
      fst (Init tr c ra ident w) =
        Some (Errorf ''Invalid response for method init: %v''
                [ArgErr (errors_New ''Expected emtpy string as response'')])) \<and>
   (tr (rpcClient c) ''init'' [VString ra] (remote w) = (Inr v, t') \<and>
    v \<noteq> VString [] \<longrightarrow>
      fst (Deinit tr c ra w) =
        Some (Errorf ''Invalid response for method init: %v''
                [ArgErr (errors_New ''Expected emtpy string as response'')])) \<and>
   (nv x = Inr xv \<and>
    tr (rpcClient c) ''event'' [VString i, VString a, VString k, xv] (remote w) = (Inr v, t') \<and>
    v \<noteq> VString [] \<longrightarrow>
      fst (Client_Event tr nv c i a k x w) =
        Some (Errorf ''Invalid response for method event: %v''
                [ArgErr (errors_New ''Expected emtpy string as response'')]))"
proof -
  have s: "assertEmptyResponse v = None \<longleftrightarrow> Query_String v None = ([], None)"
    by (cases v) (simp_all add: assertEmptyResponse_def Q_def Query_String_def)
  have e: "v \<noteq> VString [] \<Longrightarrow>
      assertEmptyResponse v = Some (errors_New ''Expected emtpy string as response'')"
    by (rule assertEmptyResponse_error)
  show ?thesis
    using s e
    by (simp add: assertEmptyResponse_iff PutParamset_def SetValue_def Init_def Deinit_def
          Client_Event_def Call_def)
qed

text \<open>The responses \<^verbatim>\<open>""\<close>, \<^verbatim>\<open>"nonempty"\<close>, \<^verbatim>\<open>42\<close> and \<^verbatim>\<open>[]\<close>, and \<open>SetValue\<close> answered with \<^verbatim>\<open>42\<close>.\<close>

theorem void_response_must_be_empty_string_witness:
  "assertEmptyResponse (VString []) = None \<and>
   assertEmptyResponse (VString ''nonempty'') = Some (errors_New ''Expected emtpy string as response'') \<and>
   assertEmptyResponse (VNumber 42) = Some (errors_New ''Expected emtpy string as response'') \<and>
   assertEmptyResponse (VList []) = Some (errors_New ''Expected emtpy string as response'') \<and>
   fst (SetValue (\<lambda>k m ps t. (Inr (VNumber 42), t)) (\<lambda>x. Inr (VBool True)) (NewClient ''ccu:2001'')
          ''ABC:1'' ''STATE'' (ABool True) \<lparr>remote = (), calls = []\<rparr>) =
     Some (Errorf ''Invalid response for method setValue: %v''
             [ArgErr (errors_New ''Expected emtpy string as response'')])"
proof -
  note ok = void_response_must_be_empty_string [THEN conjunct2, THEN conjunct1]
  note bad = void_response_must_be_empty_string [THEN conjunct2, THEN conjunct2, THEN conjunct1]
  note setv = void_response_must_be_empty_string
    [THEN conjunct2, THEN conjunct2, THEN conjunct2, THEN conjunct2, THEN conjunct1]
  have a: "assertEmptyResponse (VString []) = None"
    using ok [of "VString []"] by simp
  have b: "assertEmptyResponse (VString ''nonempty'') =
             Some (errors_New ''Expected emtpy string as response'')"
    using bad [of "VString ''nonempty''"] by simp
  have c: "assertEmptyResponse (VNumber 42) =
             Some (errors_New ''Expected emtpy string as response'')"
    using bad [of "VNumber 42"] by simp
  have d: "assertEmptyResponse (VList []) =
             Some (errors_New ''Expected emtpy string as response'')"
    using bad [of "VList []"] by simp
  have e: "fst (SetValue (\<lambda>k m ps t. (Inr (VNumber 42), t)) (\<lambda>x. Inr (VBool True))
                 (NewClient ''ccu:2001'') ''ABC:1'' ''STATE'' (ABool True)
                 \<lparr>remote = (), calls = []\<rparr>) =
             Some (Errorf ''Invalid response for method setValue: %v''
                     [ArgErr (errors_New ''Expected emtpy string as response'')])"
    using setv [of "\<lambda>x. Inr (VBool True)" "ABool True" "VBool True"
          "\<lambda>k m ps t. (Inr (VNumber 42), t)" "NewClient ''ccu:2001''" "''ABC:1''" "''STATE''"
          "\<lparr>remote = (), calls = []\<rparr>" "VNumber 42" "()"]
    by simp
  show ?thesis using a b c d e by simp
qed

text \<open>
  Claim C6. For every address, \<open>NewClient\<close> embeds the XML-RPC client exactly when the
  address starts with \<^verbatim>\<open>http://\<close>, and the binary client for every other address. The
  client is a value that no operation changes, and every call that any of the eleven
  operations puts on the wire is carried by the \<open>rpcClient\<close> chosen at construction.
\<close>

theorem NewClient_selects_transport:
  "(rpcClient (NewClient address) = xmlrpc_Client address \<longleftrightarrow> prefix ''http://'' address) \<and>
   (rpcClient (NewClient address) = binrpc_Client address \<longleftrightarrow> \<not> prefix ''http://'' address) \<and>
   Addr (NewClient address) = address \<and>
   (c = NewClient address \<longrightarrow>
      calls (snd (GetDeviceDescription tr rd c d w)) =
        calls w @ [(rpcClient c, ''getDeviceDescription'', [VString d])] \<and>
      calls (snd (ListDevices tr rd c w)) = calls w @ [(rpcClient c, ''listDevices'', [])] \<and>
      calls (snd (GetParamsetDescription tr rp visit c d p w)) =
        calls w @ [(rpcClient c, ''getParamsetDescription'', [VString d, VString p])] \<and>
      calls (snd (GetParamset tr visit c d p w)) =
        calls w @ [(rpcClient c, ''getParamset'', [VString d, VString p])] \<and>
      calls (snd (PutParamset tr nv c d p paramset w)) =
        (case nv (AMap paramset) of
           Inl err \<Rightarrow> calls w
         | Inr ps \<Rightarrow> calls w @ [(rpcClient c, ''putParamset'', [VString d, VString p, ps])]) \<and>
      calls (snd (SetValue tr nv c d n x w)) =
        (case nv x of
           Inl err \<Rightarrow> calls w
         | Inr xv \<Rightarrow> calls w @ [(rpcClient c, ''setValue'', [VString d, VString n, xv])]) \<and>
      calls (snd (GetValue tr c d n w)) =
        calls w @ [(rpcClient c, ''getValue'', [VString d, VString n])] \<and>
      calls (snd (Init tr c ra ident w)) =
        calls w @ [(rpcClient c, ''init'', [VString ra, VString ident])] \<and>
      calls (snd (Deinit tr c ra w)) = calls w @ [(rpcClient c, ''init'', [VString ra])] \<and>
      calls (snd (Ping tr c callerID w)) = calls w @ [(rpcClient c, ''ping'', [VString callerID])] \<and>
      calls (snd (Client_Event tr nv c i a k x w)) =
        (case nv x of
           Inl err \<Rightarrow> calls w
         | Inr xv \<Rightarrow>
             calls w @ [(rpcClient c, ''event'', [VString i, VString a, VString k, xv])]))"
proof -
  have sel: "(rpcClient (NewClient address) = xmlrpc_Client address \<longleftrightarrow> prefix ''http://'' address) \<and>
   (rpcClient (NewClient address) = binrpc_Client address \<longleftrightarrow> \<not> prefix ''http://'' address) \<and>
   Addr (NewClient address) = address"
    by (simp add: NewClient_def HasPrefix_prefix)
  have 1: "calls (snd (GetDeviceDescription tr rd c d w)) =
        calls w @ [(rpcClient c, ''getDeviceDescription'', [VString d])]" for c
    by (simp add: GetDeviceDescription_def Call_def split: prod.splits sum.splits option.splits)
  have 2: "calls (snd (ListDevices tr rd c w)) = calls w @ [(rpcClient c, ''listDevices'', [])]" for c
    by (simp add: ListDevices_def Call_def split: prod.splits sum.splits option.splits)
  have 3: "calls (snd (GetParamsetDescription tr rp visit c d p w)) =
        calls w @ [(rpcClient c, ''getParamsetDescription'', [VString d, VString p])]" for c
    by (simp add: GetParamsetDescription_def Call_def split: prod.splits sum.splits option.splits)
  have 4: "calls (snd (GetParamset tr visit c d p w)) =
        calls w @ [(rpcClient c, ''getParamset'', [VString d, VString p])]" for c
    by (simp add: GetParamset_def Call_def split: prod.splits sum.splits option.splits)
  have 5: "calls (snd (PutParamset tr nv c d p paramset w)) =
        (case nv (AMap paramset) of
           Inl err \<Rightarrow> calls w
         | Inr ps \<Rightarrow> calls w @ [(rpcClient c, ''putParamset'', [VString d, VString p, ps])])" for c
    by (simp add: PutParamset_def Call_def split: prod.splits sum.splits option.splits)
  have 6: "calls (snd (SetValue tr nv c d n x w)) =
        (case nv x of
           Inl err \<Rightarrow> calls w
         | Inr xv \<Rightarrow> calls w @ [(rpcClient c, ''setValue'', [VString d, VString n, xv])])" for c
    by (simp add: SetValue_def Call_def split: prod.splits sum.splits option.splits)
  have 7: "calls (snd (GetValue tr c d n w)) =
        calls w @ [(rpcClient c, ''getValue'', [VString d, VString n])]" for c
    by (simp add: GetValue_def Call_def split: prod.splits sum.splits option.splits)
  have 8: "calls (snd (Init tr c ra ident w)) =
        calls w @ [(rpcClient c, ''init'', [VString ra, VString ident])]" for c
    by (simp add: Init_def Call_def split: prod.splits sum.splits option.splits)
  have 9: "calls (snd (Deinit tr c ra w)) = calls w @ [(rpcClient c, ''init'', [VString ra])]" for c
    by (simp add: Deinit_def Call_def split: prod.splits sum.splits option.splits)
  have 10: "calls (snd (Ping tr c callerID w)) =
        calls w @ [(rpcClient c, ''ping'', [VString callerID])]" for c
    by (simp add: Ping_def Call_def split: prod.splits sum.splits option.splits)
  have 11: "calls (snd (Client_Event tr nv c i a k x w)) =
        (case nv x of
           Inl err \<Rightarrow> calls w
         | Inr xv \<Rightarrow>
             calls w @ [(rpcClient c, ''event'', [VString i, VString a, VString k, xv])])" for c
    by (simp add: Client_Event_def Call_def split: prod.splits sum.splits option.splits)
  show ?thesis
    using sel 1 2 3 4 5 6 7 8 9 10 11 by blast
qed

text \<open>An \<^verbatim>\<open>http://\<close> address, an address with no scheme, and an \<^verbatim>\<open>https://\<close> address.\<close>

theorem NewClient_selects_transport_witness:
  "rpcClient (NewClient ''http://ccu:2001'') = xmlrpc_Client ''http://ccu:2001'' \<and>
   rpcClient (NewClient ''ccu:2001'') = binrpc_Client ''ccu:2001'' \<and>
   rpcClient (NewClient ''https://ccu:2001'') = binrpc_Client ''https://ccu:2001'' \<and>
   calls (snd (Ping (\<lambda>k m ps t. (Inr (VBool True), t)) (NewClient ''http://ccu:2001'') ''app''
                 \<lparr>remote = (), calls = []\<rparr>)) =
     [(xmlrpc_Client ''http://ccu:2001'', ''ping'', [VString ''app''])]"
proof -
  note sel = NewClient_selects_transport [THEN conjunct1]
  note bin = NewClient_selects_transport [THEN conjunct2, THEN conjunct1]
  note ops = NewClient_selects_transport [THEN conjunct2, THEN conjunct2, THEN conjunct2]
  have a: "rpcClient (NewClient ''http://ccu:2001'') = xmlrpc_Client ''http://ccu:2001''"
    using sel [of "''http://ccu:2001''"] by simp
  have b: "rpcClient (NewClient ''ccu:2001'') = binrpc_Client ''ccu:2001''"
    using bin [of "''ccu:2001''"] by simp
  have c: "rpcClient (NewClient ''https://ccu:2001'') = binrpc_Client ''https://ccu:2001''"
    using bin [of "''https://ccu:2001''"] by simp
  have d: "calls (snd (Ping (\<lambda>k m ps t. (Inr (VBool True), t)) (NewClient ''http://ccu:2001'') ''app''
                 \<lparr>remote = (), calls = []\<rparr>)) =
     [(rpcClient (NewClient ''http://ccu:2001''), ''ping'', [VString ''app''])]"
    using ops [of "NewClient ''http://ccu:2001''" "''http://ccu:2001''"
                 "\<lambda>k m ps t. (Inr (VBool True), t)" strict_reader "''ABC:1''"
                 "\<lparr>remote = (), calls = []\<rparr>" strict_reader rev "''VALUES''"
                 "\<lambda>x. Inr (VBool True)" "[]" "''STATE''" "ABool True" "''http://host:2155''"
                 "''itf''" "''app''" "''itf''" "''ABC:1''" "''STATE''"]
    by simp
  show ?thesis using a b c d by simp
qed

text \<open>
  Claim C7. For each of the six forwarding methods, called with well-formed arguments
  (the right number of arguments, each of the shape the handler reads; for newDevices,
  every element accepted by the reader): if the callback of the receiver returns an
  error, the handler returns no value and exactly that error; if the callback returns
  nil, the handler returns the empty string and no error.
\<close>

theorem receiver_result_passed_through:
  "NewHandler rd receiver ''event'' = Some (event_handler receiver) \<and>
   (\<forall>err r'. Event receiver i a k (any_of v) (rstate w) = (Some err, r') \<longrightarrow>
      fst (event_handler receiver (VList [VString i, VString a, VString k, v]) w) = (None, Some err)) \<and>
   (\<forall>r'. Event receiver i a k (any_of v) (rstate w) = (None, r') \<longrightarrow>
      fst (event_handler receiver (VList [VString i, VString a, VString k, v]) w) =
        (Some (VString []), None)) \<and>
   NewHandler rd receiver ''newDevices'' = Some (newDevices_handler rd receiver) \<and>
   (\<forall>err r'. (\<forall>x\<in>set ds. snd (populate rd x) = None) \<and>
      NewDevices receiver i (map (\<lambda>x. fst (populate rd x)) ds) (rstate w) = (Some err, r') \<longrightarrow>
      fst (newDevices_handler rd receiver (VList [VString i, VList ds]) w) = (None, Some err)) \<and>
   (\<forall>r'. (\<forall>x\<in>set ds. snd (populate rd x) = None) \<and>
      NewDevices receiver i (map (\<lambda>x. fst (populate rd x)) ds) (rstate w) = (None, r') \<longrightarrow>
      fst (newDevices_handler rd receiver (VList [VString i, VList ds]) w) =
        (Some (VString []), None)) \<and>
   NewHandler rd receiver ''deleteDevices'' = Some (deleteDevices_handler receiver) \<and>
   (\<forall>err r'. DeleteDevices receiver i as (rstate w) = (Some err, r') \<longrightarrow>
      fst (deleteDevices_handler receiver (VList [VString i, VList (map VString as)]) w) =
        (None, Some err)) \<and>
   (\<forall>r'. DeleteDevices receiver i as (rstate w) = (None, r') \<longrightarrow>
      fst (deleteDevices_handler receiver (VList [VString i, VList (map VString as)]) w) =
        (Some (VString []), None)) \<and>
   NewHandler rd receiver ''updateDevice'' = Some (updateDevice_handler receiver) \<and>
   (\<forall>err r'. UpdateDevice receiver i a h (rstate w) = (Some err, r') \<longrightarrow>
      fst (updateDevice_handler receiver (VList [VString i, VString a, VNumber h]) w) =
        (None, Some err)) \<and>
   (\<forall>r'. UpdateDevice receiver i a h (rstate w) = (None, r') \<longrightarrow>
      fst (updateDevice_handler receiver (VList [VString i, VString a, VNumber h]) w) =
        (Some (VString []), None)) \<and>
   NewHandler rd receiver ''replaceDevice'' = Some (replaceDevice_handler receiver) \<and>
   (\<forall>err r'. ReplaceDevice receiver i a b (rstate w) = (Some err, r') \<longrightarrow>
      fst (replaceDevice_handler receiver (VList [VString i, VString a, VString b]) w) =
        (None, Some err)) \<and>
   (\<forall>r'. ReplaceDevice receiver i a b (rstate w) = (None, r') \<longrightarrow>
      fst (replaceDevice_handler receiver (VList [VString i, VString a, VString b]) w) =
        (Some (VString []), None)) \<and>
   NewHandler rd receiver ''readdedDevice'' = Some (readdedDevice_handler receiver) \<and>
   (\<forall>err r'. ReaddedDevice receiver i as (rstate w) = (Some err, r') \<longrightarrow>
      fst (readdedDevice_handler receiver (VList [VString i, VList (map VString as)]) w) =
        (None, Some err)) \<and>
   (\<forall>r'. ReaddedDevice receiver i as (rstate w) = (None, r') \<longrightarrow>
      fst (readdedDevice_handler receiver (VList [VString i, VList (map VString as)]) w) =
        (Some (VString []), None))"
  by (simp add: NewHandler_table event_forwards newDevices_forwards deleteDevices_forwards
        updateDevice_forwards replaceDevice_forwards readdedDevice_forwards invoke_def)

text \<open>updateDevice and newDevices, on a receiver that fails and on one that succeeds.\<close>

theorem receiver_result_passed_through_witness:
  "fst (updateDevice_handler refusing_Receiver (VList [VString ''itf'', VString ''ABC:1'', VNumber 1])
          \<lparr>rstate = (), invoked = []\<rparr>) = (None, Some (errors_New ''refused'')) \<and>
   fst (updateDevice_handler accepting_Receiver (VList [VString ''itf'', VString ''ABC:1'', VNumber 1])
          \<lparr>rstate = (), invoked = []\<rparr>) = (Some (VString []), None) \<and>
   fst (newDevices_handler strict_reader refusing_Receiver (VList [VString ''itf'', VList [VMap []]])
          \<lparr>rstate = (), invoked = []\<rparr>) = (None, Some (errors_New ''refused'')) \<and>
   fst (newDevices_handler strict_reader accepting_Receiver (VList [VString ''itf'', VList [VMap []]])
          \<lparr>rstate = (), invoked = []\<rparr>) = (Some (VString []), None)"
  using receiver_result_passed_through [of strict_reader refusing_Receiver "''itf''" "''ABC:1''" _ _
          "\<lparr>rstate = (), invoked = []\<rparr>" "[VMap []]" _ 1]
        receiver_result_passed_through [of strict_reader accepting_Receiver "''itf''" "''ABC:1''" _ _
          "\<lparr>rstate = (), invoked = []\<rparr>" "[VMap []]" _ 1]
  by (simp add: refusing_Receiver_def accepting_Receiver_def strict_reader_def)

text \<open>
  Claim C8 as stated fails on two inputs with two arguments of which the second is a list
  whose elements all decode: with a receiver that fails, the callback is invoked and its
  error, not the empty string, is the reply; with a number as first argument, the handler
  fails before the list is looked at and the receiver is not invoked.
\<close>

theorem newDevices_reply_counterexample:
  "newDevices_handler strict_reader refusing_Receiver (VList [VString ''X'', VList []])
      \<lparr>rstate = (), invoked = []\<rparr> =
     ((None, Some (errors_New ''refused'')),
      \<lparr>rstate = (), invoked = [Invoke_NewDevices ''X'' []]\<rparr>) \<and>
   newDevices_handler strict_reader accepting_Receiver (VList [VNumber 42, VList []])
      \<lparr>rstate = (), invoked = []\<rparr> =
     ((None, Some (Errorf ''Invalid argument for newDevices method: %v'' [ArgErr TypeMismatch])),
      \<lparr>rstate = (), invoked = []\<rparr>)"
  by (simp add: newDevices_handler_def Q_def Query_String_def invoke_def
        refusing_Receiver_def accepting_Receiver_def)

text \<open>
  Claim C8, amended. For every call of newDevices with two arguments of which the first
  is a string and the second a list: the elements are read in order, and at the first
  element the reader rejects the handler returns the error carrying that fault and the
  server state is unchanged (the receiver is not invoked). When every element is
  accepted, also when there is none, the callback NewDevices is invoked exactly once,
  with the interface id and the list of records read (the empty list for no element),
  and the handler returns the empty string when the callback returns nil and the
  callback's error otherwise.
\<close>

theorem newDevices_decodes_then_forwards:
  "NewHandler rd receiver ''newDevices'' = Some (newDevices_handler rd receiver) \<and>
   ((\<forall>x\<in>set pre. snd (populate rd x) = None) \<and> snd (populate rd d) = Some e \<longrightarrow>
      newDevices_handler rd receiver (VList [VString i, VList (pre @ d # post)]) w =
        ((None, Some (Errorf ''Invalid device description for newDevices method: %v''
                        [ArgErr e])), w)) \<and>
   ((\<forall>x\<in>set ds. snd (populate rd x) = None) \<longrightarrow>
      newDevices_handler rd receiver (VList [VString i, VList ds]) w =
        (case NewDevices receiver i (map (\<lambda>x. fst (populate rd x)) ds) (rstate w) of
           (Some err, r') \<Rightarrow>
             ((None, Some err),
              \<lparr>rstate = r',
                invoked = invoked w @ [Invoke_NewDevices i (map (\<lambda>x. fst (populate rd x)) ds)]\<rparr>)
         | (None, r') \<Rightarrow>
             ((Some (VString []), None),
              \<lparr>rstate = r',
                invoked = invoked w @ [Invoke_NewDevices i (map (\<lambda>x. fst (populate rd x)) ds)]\<rparr>))) \<and>
   newDevices_handler rd receiver (VList [VString i, VList []]) w =
     (case NewDevices receiver i [] (rstate w) of
        (Some err, r') \<Rightarrow>
          ((None, Some err), \<lparr>rstate = r', invoked = invoked w @ [Invoke_NewDevices i []]\<rparr>)
      | (None, r') \<Rightarrow>
          ((Some (VString []), None),
           \<lparr>rstate = r', invoked = invoked w @ [Invoke_NewDevices i []]\<rparr>))"
proof -
  have malformed: "newDevices_handler rd receiver (VList [VString i, VList (pre @ d # post)]) w =
        ((None, Some (Errorf ''Invalid device description for newDevices method: %v''
                        [ArgErr e])), w)"
    if "\<forall>x\<in>set pre. snd (populate rd x) = None" and "snd (populate rd d) = Some e"
    using that by (simp add: newDevices_handler_def Q_def newDevices_loop_first_fault)
  have decoded: "newDevices_handler rd receiver (VList [VString i, VList ds]) w =
        (case NewDevices receiver i (map (\<lambda>x. fst (populate rd x)) ds) (rstate w) of
           (Some err, r') \<Rightarrow>
             ((None, Some err),
              \<lparr>rstate = r',
                invoked = invoked w @ [Invoke_NewDevices i (map (\<lambda>x. fst (populate rd x)) ds)]\<rparr>)
         | (None, r') \<Rightarrow>
             ((Some (VString []), None),
              \<lparr>rstate = r',
                invoked = invoked w @ [Invoke_NewDevices i (map (\<lambda>x. fst (populate rd x)) ds)]\<rparr>))"
    if "\<forall>x\<in>set ds. snd (populate rd x) = None" for ds
    using that
    by (simp add: newDevices_forwards invoke_def split: prod.splits option.splits)
  have none: "newDevices_handler rd receiver (VList [VString i, VList []]) w =
     (case NewDevices receiver i [] (rstate w) of
        (Some err, r') \<Rightarrow>
          ((None, Some err), \<lparr>rstate = r', invoked = invoked w @ [Invoke_NewDevices i []]\<rparr>)
      | (None, r') \<Rightarrow>
          ((Some (VString []), None),
           \<lparr>rstate = r', invoked = invoked w @ [Invoke_NewDevices i []]\<rparr>))"
    using newDevices_forwards [of "[]" rd receiver i w]
    by (simp add: invoke_def split: prod.splits option.splits)
  show ?thesis
    using malformed decoded none by (simp add: NewHandler_table)
qed

text \<open>No element, two accepted elements, and a rejected element between two accepted ones.\<close>

theorem newDevices_decodes_then_forwards_witness:
  "newDevices_handler strict_reader accepting_Receiver (VList [VString ''X'', VList []])
      \<lparr>rstate = (), invoked = []\<rparr> =
     ((Some (VString []), None), \<lparr>rstate = (), invoked = [Invoke_NewDevices ''X'' []]\<rparr>) \<and>
   newDevices_handler strict_reader accepting_Receiver
      (VList [VString ''X'', VList [VMap [], VMap []]]) \<lparr>rstate = (), invoked = []\<rparr> =
     ((Some (VString []), None), \<lparr>rstate = (), invoked = [Invoke_NewDevices ''X'' [(), ()]]\<rparr>) \<and>
   newDevices_handler strict_reader accepting_Receiver
      (VList [VString ''X'', VList [VMap [], VNumber 7, VMap []]]) \<lparr>rstate = (), invoked = []\<rparr> =
     ((None, Some (Errorf ''Invalid device description for newDevices method: %v''
                     [ArgErr TypeMismatch])), \<lparr>rstate = (), invoked = []\<rparr>)"
proof -
  note malformed = newDevices_decodes_then_forwards [THEN conjunct2, THEN conjunct1]
  note decoded = newDevices_decodes_then_forwards [THEN conjunct2, THEN conjunct2, THEN conjunct1]
  note none = newDevices_decodes_then_forwards [THEN conjunct2, THEN conjunct2, THEN conjunct2]
  have a: "newDevices_handler strict_reader accepting_Receiver (VList [VString ''X'', VList []])
      \<lparr>rstate = (), invoked = []\<rparr> =
     ((Some (VString []), None), \<lparr>rstate = (), invoked = [Invoke_NewDevices ''X'' []]\<rparr>)"
    using none [of strict_reader accepting_Receiver "''X''" "\<lparr>rstate = (), invoked = []\<rparr>"]
    by (simp add: accepting_Receiver_def)
  have b: "newDevices_handler strict_reader accepting_Receiver
      (VList [VString ''X'', VList [VMap [], VMap []]]) \<lparr>rstate = (), invoked = []\<rparr> =
     ((Some (VString []), None), \<lparr>rstate = (), invoked = [Invoke_NewDevices ''X'' [(), ()]]\<rparr>)"
    using decoded [of "[VMap [], VMap []]" strict_reader accepting_Receiver "''X''"
            "\<lparr>rstate = (), invoked = []\<rparr>"]
    by (simp add: accepting_Receiver_def strict_reader_def)
  have c: "newDevices_handler strict_reader accepting_Receiver
      (VList [VString ''X'', VList [VMap [], VNumber 7, VMap []]]) \<lparr>rstate = (), invoked = []\<rparr> =
     ((None, Some (Errorf ''Invalid device description for newDevices method: %v''
                     [ArgErr TypeMismatch])), \<lparr>rstate = (), invoked = []\<rparr>)"
    using malformed [of "[VMap []]" strict_reader "VNumber 7" TypeMismatch accepting_Receiver "''X''"
            "[VMap []]" "\<lparr>rstate = (), invoked = []\<rparr>"]
    by (simp add: strict_reader_def)
  show ?thesis using a b c by simp
qed

text \<open>
  Claim C9. When the transport delivers a response to \<open>Deinit\<close> that is not the empty
  string, the error \<open>Deinit\<close> returns has the format string of \<open>Init\<close>: it names the
  method \<^verbatim>\<open>init\<close>, and the text \<^verbatim>\<open>deinit\<close> does not occur in it.
\<close>

theorem Deinit_error_names_init:
  assumes "tr (rpcClient c) ''init'' [VString receiverAddress] (remote w) = (Inr resp, t')"
    and "resp \<noteq> VString []"
  shows "fst (Deinit tr c receiverAddress w) =
           Some (Errorf ''Invalid response for method init: %v''
                   [ArgErr (errors_New ''Expected emtpy string as response'')]) \<and>
         sublist ''init'' ''Invalid response for method init: %v'' \<and>
         \<not> sublist ''deinit'' ''Invalid response for method init: %v''"
proof -
  have "fst (Deinit tr c receiverAddress w) =
           Some (Errorf ''Invalid response for method init: %v''
                   [ArgErr (errors_New ''Expected emtpy string as response'')])"
    using assms by (simp add: Deinit_def Call_def assertEmptyResponse_error)
  moreover have "sublist ''init'' ''Invalid response for method init: %v''"
    by code_simp
  moreover have "\<not> sublist ''deinit'' ''Invalid response for method init: %v''"
    by code_simp
  ultimately show ?thesis by blast
qed

text \<open>The response \<^verbatim>\<open>"ok"\<close>.\<close>

theorem Deinit_error_names_init_witness:
  "fst (Deinit (\<lambda>k m ps t. (Inr (VString ''ok''), t)) (NewClient ''http://ccu:2001'')
          ''http://host:2155'' \<lparr>remote = (), calls = []\<rparr>) =
     Some (Errorf ''Invalid response for method init: %v''
             [ArgErr (errors_New ''Expected emtpy string as response'')])"
  using Deinit_error_names_init [of "\<lambda>k m ps t. (Inr (VString ''ok''), t)"
          "NewClient ''http://ccu:2001''" "''http://host:2155''" "\<lparr>remote = (), calls = []\<rparr>"
          "VString ''ok''" "()"]
  by simp

text \<open>
  Claim C10. When the response to \<open>GetParamsetDescription\<close> is a named map of which some
  entry is rejected by the reader, then in whatever order the entries are visited the
  operation returns the nil map and the error that names getParamsetDescription and
  carries the fault of a rejected entry. And for every response whatsoever: when the
  operation returns an error, the map it returns is nil.
\<close>

theorem GetParamsetDescription_no_partial_result:
  "(tr (rpcClient c) ''getParamsetDescription'' [VString d, VString p] (remote w) = (Inr (VMap kvs), t') \<and>
    set (visit kvs) = set kvs \<and> (n, v) \<in> set kvs \<and> snd (populate rp v) \<noteq> None \<longrightarrow>
      (\<exists>e. fst (GetParamsetDescription tr rp visit c d p w) =
             (None, Some (Errorf ''Invalid XML response for getParamsetDescription: %v'' [ArgErr e])) \<and>
           (\<exists>(n', v')\<in>set kvs. snd (populate rp v') = Some e))) \<and>
   (snd (fst (GetParamsetDescription tr rp visit c d p w)) \<noteq> None \<longrightarrow>
      fst (fst (GetParamsetDescription tr rp visit c d p w)) = None)"
proof (intro conjI impI)
  assume h: "tr (rpcClient c) ''getParamsetDescription'' [VString d, VString p] (remote w) = (Inr (VMap kvs), t') \<and>
    set (visit kvs) = set kvs \<and> (n, v) \<in> set kvs \<and> snd (populate rp v) \<noteq> None"
  then have "(n, v) \<in> set (visit kvs)" by simp
  with h have "snd (GetParamsetDescription_loop rp (visit kvs) Map.empty None) \<noteq> None"
    using GetParamsetDescription_loop_fault by fastforce
  then obtain r e where l: "GetParamsetDescription_loop rp (visit kvs) Map.empty None = (r, Some e)"
    by (metis not_None_eq prod.collapse)
  then have "\<exists>(n', v')\<in>set (visit kvs). snd (populate rp v') = Some e"
    using GetParamsetDescription_loop_fault_origin [of rp "visit kvs" Map.empty e] by simp
  with h have o: "\<exists>(n', v')\<in>set kvs. snd (populate rp v') = Some e" by simp
  have "fst (GetParamsetDescription tr rp visit c d p w) =
          (None, Some (Errorf ''Invalid XML response for getParamsetDescription: %v'' [ArgErr e]))"
    using h l by (simp add: GetParamsetDescription_def Call_def Q_def Query_Map_def)
  with o show "\<exists>e. fst (GetParamsetDescription tr rp visit c d p w) =
             (None, Some (Errorf ''Invalid XML response for getParamsetDescription: %v'' [ArgErr e])) \<and>
           (\<exists>(n', v')\<in>set kvs. snd (populate rp v') = Some e)"
    by blast
next
  assume "snd (fst (GetParamsetDescription tr rp visit c d p w)) \<noteq> None"
  then show "fst (fst (GetParamsetDescription tr rp visit c d p w)) = None"
    by (auto simp: GetParamsetDescription_def split: prod.splits sum.splits option.splits)
qed

text \<open>Two entries, the second rejected, visited in reverse order.\<close>

theorem GetParamsetDescription_no_partial_result_witness:
  "fst (GetParamsetDescription
          (\<lambda>k m ps t. (Inr (VMap [(''LEVEL'', VMap []), (''STATE'', VNumber 7)]), t))
          strict_reader rev (NewClient ''ccu:2001'') ''ABC:1'' ''VALUES''
          \<lparr>remote = (), calls = []\<rparr>) =
     (None, Some (Errorf ''Invalid XML response for getParamsetDescription: %v''
                    [ArgErr TypeMismatch]))"
proof -
  have "\<exists>e. fst (GetParamsetDescription
          (\<lambda>k m ps t. (Inr (VMap [(''LEVEL'', VMap []), (''STATE'', VNumber 7)]), t))
          strict_reader rev (NewClient ''ccu:2001'') ''ABC:1'' ''VALUES''
          \<lparr>remote = (), calls = []\<rparr>) =
     (None, Some (Errorf ''Invalid XML response for getParamsetDescription: %v'' [ArgErr e])) \<and>
     (\<exists>(n', v')\<in>set [(''LEVEL'', VMap []), (''STATE'', VNumber 7)].
         snd (populate strict_reader v') = Some e)"
    using GetParamsetDescription_no_partial_result
      [THEN conjunct1,
       of "\<lambda>k m ps t. (Inr (VMap [(''LEVEL'', VMap []), (''STATE'', VNumber 7)]), t)"
          "NewClient ''ccu:2001''" "''ABC:1''" "''VALUES''" "\<lparr>remote = (), calls = []\<rparr>"
          "[(''LEVEL'', VMap []), (''STATE'', VNumber 7)]" "()" rev "''STATE''" "VNumber 7"
          strict_reader]
    by (simp add: strict_reader_def insert_commute)
  then show ?thesis
    by (auto simp: strict_reader_def)
qed

end
